theory Spec2Isabelle
  imports Main "HOL-Library.AList" "HOL-Library.Multiset" "HOL-Library.Word"
begin

section \<open>Value types\<close>

text \<open>
  The value types (Symbol, Venue, BarType, Instrument, Tick, Bar, TimeEvent) are owned by
  modules outside the two source files; only the attributes the two data clients read are
  kept. A \<open>datetime\<close> is an integer count of time units since the epoch, a \<open>date\<close> an
  integer day number.
\<close>

datatype Venue = Venue (venue_value: string)

record Symbol =
  code :: string
  venue :: Venue

definition symbol_value :: "Symbol \<Rightarrow> string" where
  \<comment> \<open>\<open>symbol.value\<close>: the canonical string form of a symbol.\<close>
  "symbol_value s = code s @ ''.'' @ venue_value (venue s)"

definition symbol_to_string :: "Symbol \<Rightarrow> string" where
  "symbol_to_string s = symbol_value s"

datatype BarStructure = UNKNOWN | TICK | SECOND | MINUTE | HOUR

datatype PriceType = BID | ASK | MID | LAST

record BarSpecification =
  step :: nat
  bar_structure :: BarStructure
  price_type :: PriceType

record BarType =
  bar_symbol :: Symbol
  bar_specification :: BarSpecification

record Instrument =
  symbol :: Symbol
  tick_precision :: nat

record Tick =
  tick_symbol :: Symbol
  bid :: int
  ask :: int
  timestamp :: int

text \<open>
  A bar is an aggregate of the ticks of its window; the OHLC summary is computed from them
  by the external bar builder, so only the window is kept.
\<close>

datatype Bar = Bar (bar_ticks: "Tick list")

record TimeEvent =
  event_label :: string
  event_timestamp :: int

section \<open>Errors and effects\<close>

datatype error = ConditionFailed | AssertionError | KeyError | IndexError

text \<open>
  A handler or callback argument is any Python object. \<open>Handler n\<close> is the callable
  with identity \<open>n\<close>, \<open>AggregatorUpdate bt\<close> the bound \<open>update\<close> method of the tick bar
  aggregator of \<open>bt\<close>, \<open>NotCallable\<close> any object that cannot be called (\<open>None\<close> included).
\<close>

datatype Handler = Handler nat | AggregatorUpdate BarType | NotCallable

definition is_callable :: "Handler \<Rightarrow> bool" where
  "is_callable h = (h \<noteq> NotCallable)"

datatype Arg =
    ATick Tick
  | ATicks "Tick list"
  | ABar BarType Bar
  | ABars BarType "Bar list"
  | AInstrument Instrument
  | AInstruments "Instrument list"
  | AEvent TimeEvent

datatype Channel = TickReq | BarReq | InstReq | TickSub | BarSub | InstSub

datatype QueryField = Str string | DateStr int | IntStr int

record DataRequest =
  query :: "(string \<times> QueryField) list"
  request_id :: nat
  request_timestamp :: int

datatype LogLevel = INFO | ERROR

text \<open>
  Everything a client does to the outside world is appended to its trace, in the order the
  source does it: a call of a handler or callback, a request sent on a request/reply
  channel, a subscribe or unsubscribe issued on a publish/subscribe channel, a change of
  the handler registry, a log line.
\<close>

datatype Effect =
    Called Handler Arg
  | Sent Channel DataRequest
  | WireSubscribe Channel string
  | WireUnsubscribe Channel string
  | TickHandlerAdded Symbol Handler
  | TickHandlerRemoved Symbol Handler
  | BarHandlerAdded BarType Handler
  | BarHandlerRemoved BarType Handler
  | InstrumentHandlerAdded Symbol Handler
  | InstrumentHandlerRemoved Symbol Handler
  | Logged LogLevel string

section \<open>The shared data client (base class)\<close>

text \<open>
  Modelled from the spec: the \<open>DataClient\<close> base class (\<open>nautilus_trader.common.data\<close>) is
  not among the source files. Its state is the instrument dictionary, the three handler
  registries (key to ordered list of handlers) and the bar aggregators; its private
  operations follow sections 3 and 4.1 of the specification.
\<close>

record DataClient =
  client_instruments :: "(Symbol \<times> Instrument) list"
  tick_handlers :: "Symbol \<rightharpoonup> Handler list"
  bar_handlers :: "BarType \<rightharpoonup> Handler list"
  instrument_handlers :: "Symbol \<rightharpoonup> Handler list"
  bar_aggregators :: "BarType \<rightharpoonup> Tick list"
  trace :: "Effect list"

definition emit :: "Effect \<Rightarrow> 'a DataClient_scheme \<Rightarrow> 'a DataClient_scheme" where
  "emit e self = self\<lparr>trace := trace self @ [e]\<rparr>"

definition registered :: "('k \<rightharpoonup> Handler list) \<Rightarrow> 'k \<Rightarrow> Handler list" where
  \<comment> \<open>The handlers of a key; a key with no entry has none.\<close>
  "registered reg k = (case reg k of None \<Rightarrow> [] | Some hs \<Rightarrow> hs)"

definition registry_add :: "'k \<Rightarrow> Handler \<Rightarrow> ('k \<rightharpoonup> Handler list) \<Rightarrow> ('k \<rightharpoonup> Handler list)" where
  \<comment> \<open>Modelled from the spec: the entry is created on the first subscribe, insertion order
      is kept.\<close>
  "registry_add k h reg = reg(k \<mapsto> registered reg k @ [h])"

definition registry_remove :: "'k \<Rightarrow> Handler \<Rightarrow> ('k \<rightharpoonup> Handler list) \<Rightarrow> ('k \<rightharpoonup> Handler list)" where
  \<comment> \<open>Modelled from the spec: the entry is removed with the last handler of its key.\<close>
  "registry_remove k h reg =
     (case reg k of
        None \<Rightarrow> reg
      | Some hs \<Rightarrow> (if remove1 h hs = [] then reg(k := None) else reg(k \<mapsto> remove1 h hs)))"

definition add_tick_handler :: "Symbol \<Rightarrow> Handler \<Rightarrow> 'a DataClient_scheme \<Rightarrow> 'a DataClient_scheme" where
  \<comment> \<open>Modelled from the spec: \<open>_add_tick_handler\<close> registers the handler under the symbol.\<close>
  "add_tick_handler s h self =
     emit (TickHandlerAdded s h) (self\<lparr>tick_handlers := registry_add s h (tick_handlers self)\<rparr>)"

definition add_bar_handler :: "BarType \<Rightarrow> Handler \<Rightarrow> 'a DataClient_scheme \<Rightarrow> 'a DataClient_scheme" where
  \<comment> \<open>Modelled from the spec: \<open>_add_bar_handler\<close> registers the handler under the bar type.\<close>
  "add_bar_handler bt h self =
     emit (BarHandlerAdded bt h) (self\<lparr>bar_handlers := registry_add bt h (bar_handlers self)\<rparr>)"

definition add_instrument_handler :: "Symbol \<Rightarrow> Handler \<Rightarrow> 'a DataClient_scheme \<Rightarrow> 'a DataClient_scheme" where
  \<comment> \<open>Modelled from the spec: \<open>_add_instrument_handler\<close> registers the handler under the
      symbol.\<close>
  "add_instrument_handler s h self =
     emit (InstrumentHandlerAdded s h)
       (self\<lparr>instrument_handlers := registry_add s h (instrument_handlers self)\<rparr>)"

definition remove_tick_handler :: "Symbol \<Rightarrow> Handler \<Rightarrow> 'a DataClient_scheme \<Rightarrow> 'a DataClient_scheme" where
  \<comment> \<open>Modelled from the spec: \<open>_remove_tick_handler\<close> takes the handler out of the registry.\<close>
  "remove_tick_handler s h self =
     emit (TickHandlerRemoved s h)
       (self\<lparr>tick_handlers := registry_remove s h (tick_handlers self)\<rparr>)"

definition remove_bar_handler :: "BarType \<Rightarrow> Handler \<Rightarrow> 'a DataClient_scheme \<Rightarrow> 'a DataClient_scheme" where
  \<comment> \<open>Modelled from the spec: \<open>_remove_bar_handler\<close> takes the handler out of the registry.\<close>
  "remove_bar_handler bt h self =
     emit (BarHandlerRemoved bt h)
       (self\<lparr>bar_handlers := registry_remove bt h (bar_handlers self)\<rparr>)"

definition remove_instrument_handler :: "Symbol \<Rightarrow> Handler \<Rightarrow> 'a DataClient_scheme \<Rightarrow> 'a DataClient_scheme" where
  \<comment> \<open>Modelled from the spec: \<open>_remove_instrument_handler\<close> takes the handler out of the
      registry.\<close>
  "remove_instrument_handler s h self =
     emit (InstrumentHandlerRemoved s h)
       (self\<lparr>instrument_handlers := registry_remove s h (instrument_handlers self)\<rparr>)"

definition handle_bar :: "BarType \<Rightarrow> Bar \<Rightarrow> 'a DataClient_scheme \<Rightarrow> 'a DataClient_scheme" where
  \<comment> \<open>Modelled from the spec: every handler registered for the bar type is called with the
      bar; no handler, no effect.\<close>
  "handle_bar bt bar self =
     fold (\<lambda>h. emit (Called h (ABar bt bar))) (registered (bar_handlers self) bt) self"

definition aggregator_update :: "BarType \<Rightarrow> Tick \<Rightarrow> 'a DataClient_scheme \<Rightarrow> 'a DataClient_scheme" where
  \<comment> \<open>Modelled from the spec: the tick-counting bar aggregator (an external collaborator)
      collects ticks and, once the configured count has accumulated, forwards the bar
      through \<open>handle_bar\<close> and starts the next window.\<close>
  "aggregator_update bt tick self =
     (case bar_aggregators self bt of
        None \<Rightarrow> self
      | Some window \<Rightarrow>
          (if step (bar_specification bt) \<le> length (window @ [tick])
           then handle_bar bt (Bar (window @ [tick]))
                  (self\<lparr>bar_aggregators := (bar_aggregators self)(bt \<mapsto> [])\<rparr>)
           else self\<lparr>bar_aggregators := (bar_aggregators self)(bt \<mapsto> window @ [tick])\<rparr>))"

definition call_tick_handler :: "Tick \<Rightarrow> Handler \<Rightarrow> 'a DataClient_scheme \<Rightarrow> 'a DataClient_scheme" where
  \<comment> \<open>Modelled from the spec: one call of a tick handler; the call of an aggregator's
      update runs the aggregator.\<close>
  "call_tick_handler tick h self =
     (case h of
        AggregatorUpdate bt \<Rightarrow> aggregator_update bt tick (emit (Called h (ATick tick)) self)
      | _ \<Rightarrow> emit (Called h (ATick tick)) self)"

definition handle_tick :: "Tick \<Rightarrow> 'a DataClient_scheme \<Rightarrow> 'a DataClient_scheme" where
  \<comment> \<open>Modelled from the spec: every handler registered for the tick's symbol is called with
      the tick, in registration order; no handler, no effect.\<close>
  "handle_tick tick self =
     fold (call_tick_handler tick) (registered (tick_handlers self) (tick_symbol tick)) self"

definition handle_instrument :: "Instrument \<Rightarrow> 'a DataClient_scheme \<Rightarrow> 'a DataClient_scheme" where
  \<comment> \<open>Modelled from the spec and the caller's comment (\<open>Update instruments dictionary\<close>): the
      instrument is stored under its symbol and sent to the handlers of that symbol.\<close>
  "handle_instrument i self =
     fold (\<lambda>h. emit (Called h (AInstrument i))) (registered (instrument_handlers self) (symbol i))
       (self\<lparr>client_instruments := AList.update (symbol i) i (client_instruments self)\<rparr>)"

section \<open>The virtual clock\<close>

text \<open>
  Modelled from the spec: \<open>TestClock\<close> (\<open>nautilus_trader.common.clock\<close>) is not among the
  source files. The backtest client reads \<open>has_timers\<close> and \<open>next_event_time\<close> (the
  earliest pending trigger) and calls \<open>advance_time\<close> and \<open>get_pending_events\<close>. A timer is a
  time event with its callback; it is due once its trigger time is not later than the
  clock's time.
\<close>

record TestClock =
  time_now :: int
  timers :: "(TimeEvent \<times> Handler) list"
  pending_events :: "(TimeEvent \<times> Handler) list"

definition has_timers :: "TestClock \<Rightarrow> bool" where
  \<comment> \<open>Modelled from the spec: the clock has pending timers.\<close>
  "has_timers c = (timers c \<noteq> [])"

definition next_event_time :: "TestClock \<Rightarrow> int" where
  \<comment> \<open>Modelled from the spec: the earliest pending trigger time.\<close>
  "next_event_time c = Min (set (map (\<lambda>(e, h). event_timestamp e) (timers c)))"

definition due :: "int \<Rightarrow> TimeEvent \<times> Handler \<Rightarrow> bool" where
  "due t = (\<lambda>(e, h). event_timestamp e \<le> t)"

definition advance_time :: "int \<Rightarrow> TestClock \<Rightarrow> TestClock" where
  \<comment> \<open>Modelled from the spec: the clock's time becomes \<open>t\<close> and the timers now due become
      pending events.\<close>
  "advance_time t c =
     c\<lparr>time_now := t,
       timers := filter (\<lambda>x. \<not> due t x) (timers c),
       pending_events := pending_events c @ filter (due t) (timers c)\<rparr>"

definition get_pending_events :: "TestClock \<Rightarrow> (TimeEvent \<times> Handler) list \<times> TestClock" where
  \<comment> \<open>Modelled from the spec: the pending events are handed out, once.\<close>
  "get_pending_events c = (pending_events c, c\<lparr>pending_events := []\<rparr>)"

section \<open>The backtest data client\<close>

text \<open>
  A \<open>pandas.DataFrame\<close> is a list of rows, each an index timestamp with its column values.
  The container's four dictionaries are association lists in insertion order (the order in
  which Python iterates a dictionary); the inner dictionaries of the bar tables, which are
  only looked up, are maps.
\<close>

type_synonym DataFrame = "(int \<times> int list) list"

record BacktestDataContainer =
  instruments :: "(Symbol \<times> Instrument) list"
  ticks :: "(Symbol \<times> DataFrame) list"
  bars_bid :: "(Symbol \<times> (BarStructure \<rightharpoonup> DataFrame)) list"
  bars_ask :: "(Symbol \<times> (BarStructure \<rightharpoonup> DataFrame)) list"

text \<open>
  \<open>TickDataWrangler\<close> (\<open>nautilus_trader.data.market\<close>) is an external collaborator: the
  builder is a parameter of the construction. It is given the symbol, the tick precision,
  the optional tick table and the bid and ask bar tables, and \<open>build_ticks_all\<close> returns
  the instrument's ticks.
\<close>

type_synonym TickDataWrangler =
  "Symbol \<Rightarrow> nat \<Rightarrow> DataFrame option \<Rightarrow> DataFrame \<Rightarrow> DataFrame \<Rightarrow> Tick list"

record DataProvider =
  instrument :: Instrument
  provider_ticks :: "Tick list"

definition bars_at ::
  "(BarStructure \<rightharpoonup> DataFrame) \<Rightarrow> (BarStructure \<rightharpoonup> DataFrame) \<Rightarrow> BarStructure
     \<Rightarrow> error + DataFrame \<times> DataFrame" where
  \<comment> \<open>\<open>bid_data = bars_bid[structure]; ask_data = bars_ask[structure]\<close>\<close>
  "bars_at bid_bars ask_bars st =
     (case bid_bars st of
        None \<Rightarrow> Inl KeyError
      | Some bid_data \<Rightarrow>
          (case ask_bars st of
             None \<Rightarrow> Inl KeyError
           | Some ask_data \<Rightarrow> Inr (bid_data, ask_data)))"

definition DataProvider_init ::
  "TickDataWrangler \<Rightarrow> Instrument \<Rightarrow> DataFrame option \<Rightarrow> (BarStructure \<rightharpoonup> DataFrame)
     \<Rightarrow> (BarStructure \<rightharpoonup> DataFrame) \<Rightarrow> error + DataProvider" where
  "DataProvider_init build_ticks_all instr tick_data bid_bars ask_bars =
     (case (if bid_bars SECOND \<noteq> None then bars_at bid_bars ask_bars SECOND
            else if bid_bars MINUTE \<noteq> None then bars_at bid_bars ask_bars MINUTE
            else if bid_bars HOUR \<noteq> None then bars_at bid_bars ask_bars HOUR
            else Inr ([], [])) of
        Inl e \<Rightarrow> Inl e
      | Inr (bid_data, ask_data) \<Rightarrow>
          Inr \<lparr>instrument = instr,
               provider_ticks =
                 build_ticks_all (symbol instr) (tick_precision instr) tick_data bid_data ask_data\<rparr>)"

text \<open>
  The state of the backtest client: the base class's, the providers, the merged tick
  stream with its two recorded timestamps, and the clock. Its log lines are left out.
\<close>

record BacktestDataClient = DataClient +
  data_providers :: "(Symbol \<times> DataProvider) list"
  client_ticks :: "Tick list"
  min_timestamp :: int
  max_timestamp :: int
  clock :: TestClock

datatype Logger = Logger string

fun create_providers ::
  "TickDataWrangler \<Rightarrow> BacktestDataContainer \<Rightarrow> (Symbol \<times> Instrument) list
     \<Rightarrow> error + (Symbol \<times> DataProvider) list" where
  "create_providers w data [] = Inr []"
| "create_providers w data ((s, instr) # rest) =
     (case map_of (bars_bid data) s of
        None \<Rightarrow> Inl KeyError
      | Some bid_bars \<Rightarrow>
          (case map_of (bars_ask data) s of
             None \<Rightarrow> Inl KeyError
           | Some ask_bars \<Rightarrow>
               (case DataProvider_init w instr (map_of (ticks data) s) bid_bars ask_bars of
                  Inl e \<Rightarrow> Inl e
                | Inr provider \<Rightarrow>
                    (case create_providers w data rest of
                       Inl e \<Rightarrow> Inl e
                     | Inr providers \<Rightarrow> Inr ((s, provider) # providers)))))"

text \<open>
  The completeness check of the constructor is written
  \<^verbatim>\<open>assert(symbol in self._instruments, f'The needed instrument {symbol} was not provided.')\<close>:
  with the parentheses, the asserted expression is the two-element tuple of the membership
  test and the message. An assertion fails when its expression is false, and a tuple is
  false only when it is empty.
\<close>

datatype PyValue = PyBool bool | PyStr string | PyTuple "PyValue list"

fun truthy :: "PyValue \<Rightarrow> bool" where
  "truthy (PyBool b) = b"
| "truthy (PyStr str) = (str \<noteq> [])"
| "truthy (PyTuple vs) = (vs \<noteq> [])"

definition needed_instrument_message :: "Symbol \<Rightarrow> string" where
  "needed_instrument_message s =
     ''The needed instrument '' @ symbol_to_string s @ '' was not provided.''"

definition data_symbols :: "BacktestDataContainer \<Rightarrow> Symbol list" where
  \<comment> \<open>The set comprehension over \<open>data.ticks\<close> with the keys of both bar dictionaries added.\<close>
  "data_symbols data = map fst (ticks data) @ map fst (bars_bid data) @ map fst (bars_ask data)"

definition DataClient_init :: DataClient where
  "DataClient_init =
     \<lparr>client_instruments = [], tick_handlers = Map.empty, bar_handlers = Map.empty,
      instrument_handlers = Map.empty, bar_aggregators = Map.empty, trace = []\<rparr>"

definition all_ticks :: "(Symbol \<times> DataProvider) list \<Rightarrow> Tick list" where
  \<comment> \<open>\<open>for symbol, provider in self.data_providers.items(): ticks += provider.ticks\<close>\<close>
  "all_ticks providers = concat (map (\<lambda>(s, provider). provider_ticks provider) providers)"

definition BacktestDataClient_init ::
  "TickDataWrangler \<Rightarrow> Venue \<Rightarrow> BacktestDataContainer \<Rightarrow> TestClock option \<Rightarrow> Logger option
     \<Rightarrow> error + BacktestDataClient" where
  "BacktestDataClient_init w v data clk logger =
     (case clk of
        None \<Rightarrow> Inl ConditionFailed
      | Some c \<Rightarrow>
     (case logger of
        None \<Rightarrow> Inl ConditionFailed
      | Some l \<Rightarrow>
     (let base = fold handle_instrument (map snd (instruments data)) DataClient_init in
      if \<not> list_all
               (\<lambda>s. truthy (PyTuple [PyBool (map_of (client_instruments base) s \<noteq> None),
                                       PyStr (needed_instrument_message s)]))
               (data_symbols data)
      then Inl AssertionError
      else
        (case create_providers w data (client_instruments base) of
           Inl e \<Rightarrow> Inl e
         | Inr providers \<Rightarrow>
             (case all_ticks providers of
                [] \<Rightarrow> Inl IndexError
              | t # ts \<Rightarrow>
                  Inr \<lparr>client_instruments = client_instruments base,
                       tick_handlers = tick_handlers base,
                       bar_handlers = bar_handlers base,
                       instrument_handlers = instrument_handlers base,
                       bar_aggregators = bar_aggregators base,
                       trace = trace base,
                       data_providers = providers,
                       client_ticks = sort_key timestamp (t # ts),
                       min_timestamp = timestamp t,
                       max_timestamp = timestamp (last (t # ts)),
                       clock = c\<rparr>)))))"

definition process_tick :: "Tick \<Rightarrow> BacktestDataClient \<Rightarrow> BacktestDataClient" where
  "process_tick tick self =
     (let self1 = handle_tick tick self in
      if has_timers (clock self1) \<and> timestamp tick < next_event_time (clock self1)
      then self1
      else
        (let self2 = self1\<lparr>clock := advance_time (timestamp tick) (clock self1)\<rparr>;
             (events, c) = get_pending_events (clock self2)
         in fold (\<lambda>(event, handler). emit (Called handler (AEvent event))) events
              (self2\<lparr>clock := c\<rparr>)))"

section \<open>The live data client\<close>

text \<open>
  The keys of the wire dictionaries (\<open>nautilus_trader.serialization.constants\<close>) are not
  among the source files; only that they are distinct strings matters.
\<close>

definition DATA_TYPE :: string where "DATA_TYPE = ''DataType''"
definition SYMBOL :: string where "SYMBOL = ''Symbol''"
definition VENUE :: string where "VENUE = ''Venue''"
definition SPECIFICATION :: string where "SPECIFICATION = ''Specification''"
definition FROM_DATE :: string where "FROM_DATE = ''FromDate''"
definition TO_DATE :: string where "TO_DATE = ''ToDate''"
definition LIMIT :: string where "LIMIT = ''Limit''"

text \<open>
  A reply, once the response codec and the data codec have decoded it, is a rejection, a
  query failure (each with its reason) or the dictionary of a data response: its
  \<open>METADATA\<close> entry, a dictionary of strings, and its \<open>DATA\<close> entry, the list of the
  serialized items.
\<close>

record ResponseData =
  metadata :: "string \<rightharpoonup> string"
  data_items :: "string list"

datatype Response = MessageRejected string | QueryFailure string | DataResponse ResponseData

definition response_str :: "Response \<Rightarrow> string" where
  \<comment> \<open>\<open>str(response)\<close> of a rejection or failure: its reason.\<close>
  "response_str r = (case r of MessageRejected m \<Rightarrow> m | QueryFailure m \<Rightarrow> m | DataResponse d \<Rightarrow> [])"

text \<open>
  What lies outside the client is a parameter of every operation: the remote data service
  behind the request workers (the reply it gives on a channel to a request, the request
  and response codecs included), the live clock, the parsers of the identifier classes and
  the item decoders.
\<close>

record Service =
  reply :: "Channel \<Rightarrow> DataRequest \<Rightarrow> Response"
  live_time_now :: int
  symbol_from_string :: "string \<Rightarrow> Symbol"
  bar_type_from_string :: "string \<Rightarrow> BarType"
  deserialize_ticks :: "Symbol \<Rightarrow> string list \<Rightarrow> Tick list"
  deserialize_bars :: "string list \<Rightarrow> Bar list"
  deserialize_tick :: "Symbol \<Rightarrow> string \<Rightarrow> Tick"
  deserialize_bar :: "string \<Rightarrow> Bar"
  deserialize_instrument :: "string \<Rightarrow> Instrument"

record LiveDataClient = DataClient +
  cached_symbols :: "string \<rightharpoonup> Symbol"
  cached_bar_types :: "string \<rightharpoonup> BarType"
  guid_count :: nat

definition cache_get :: "(string \<Rightarrow> 'v) \<Rightarrow> string \<Rightarrow> (string \<rightharpoonup> 'v) \<Rightarrow> 'v \<times> (string \<rightharpoonup> 'v)" where
  \<comment> \<open>Modelled from the spec: \<open>ObjectCache.get\<close> (\<open>nautilus_trader.core.cache\<close>, not among the
      source files) memoizes the parsing of a string key: parse or reuse.\<close>
  "cache_get parse key cache =
     (case cache key of
        Some v \<Rightarrow> (v, cache)
      | None \<Rightarrow> (parse key, cache(key \<mapsto> parse key)))"

fun string_of_nat :: "nat \<Rightarrow> string" where
  "string_of_nat n =
     (if n < 10 then [char_of (48 + n)] else string_of_nat (n div 10) @ [char_of (48 + n mod 10)])"

declare string_of_nat.simps [simp del]

definition bar_structure_to_string :: "BarStructure \<Rightarrow> string" where
  "bar_structure_to_string st =
     (case st of UNKNOWN \<Rightarrow> ''UNKNOWN'' | TICK \<Rightarrow> ''TICK'' | SECOND \<Rightarrow> ''SECOND''
      | MINUTE \<Rightarrow> ''MINUTE'' | HOUR \<Rightarrow> ''HOUR'')"

definition price_type_to_string :: "PriceType \<Rightarrow> string" where
  "price_type_to_string pt =
     (case pt of BID \<Rightarrow> ''BID'' | ASK \<Rightarrow> ''ASK'' | MID \<Rightarrow> ''MID'' | LAST \<Rightarrow> ''LAST'')"

definition specification_to_string :: "BarSpecification \<Rightarrow> string" where
  \<comment> \<open>The canonical string form of a bar specification.\<close>
  "specification_to_string sp =
     string_of_nat (step sp) @ ''-'' @ bar_structure_to_string (bar_structure sp) @
     ''['' @ price_type_to_string (price_type sp) @ '']''"

definition bar_type_to_string :: "BarType \<Rightarrow> string" where
  \<comment> \<open>The canonical string form of a bar type: symbol, a dash, specification.\<close>
  "bar_type_to_string bt =
     symbol_to_string (bar_symbol bt) @ ''-'' @ specification_to_string (bar_specification bt)"

text \<open>
  An operation returns the error it raised, if any, with the client as it left it. The
  \<open>limit\<close> parameter of the request operations is a C \<open>int\<close>: a 32-bit word, read as a
  signed number.
\<close>

type_synonym 'a outcome = "error option \<times> 'a"

definition send_request ::
  "Service \<Rightarrow> Channel \<Rightarrow> (string \<times> QueryField) list \<Rightarrow> LiveDataClient \<Rightarrow> Response \<times> LiveDataClient" where
  \<comment> \<open>The request carries a fresh identifier and the current time; it is serialized, sent
      on the channel's request worker, and the reply is deserialized.\<close>
  "send_request env ch q self =
     (let request = \<lparr>query = q, request_id = guid_count self, request_timestamp = live_time_now env\<rparr>
      in (reply env ch request,
          emit (Sent ch request) (self\<lparr>guid_count := Suc (guid_count self)\<rparr>)))"

definition request_ticks ::
  "Service \<Rightarrow> Symbol option \<Rightarrow> int option \<Rightarrow> int option \<Rightarrow> 32 word \<Rightarrow> Handler
     \<Rightarrow> LiveDataClient \<Rightarrow> LiveDataClient outcome" where
  "request_ticks env symbol_arg from_date to_date limit callback self =
     (case symbol_arg of
        None \<Rightarrow> (Some ConditionFailed, self)
      | Some s \<Rightarrow>
     (case from_date of
        None \<Rightarrow> (Some ConditionFailed, self)
      | Some fd \<Rightarrow>
     (case to_date of
        None \<Rightarrow> (Some ConditionFailed, self)
      | Some td \<Rightarrow>
     (if sint limit < 0 then (Some ConditionFailed, self)
      else if \<not> is_callable callback then (Some ConditionFailed, self)
      else
        (let q = [(DATA_TYPE, Str ''Tick[]''), (SYMBOL, Str (symbol_value s)),
                  (FROM_DATE, DateStr fd), (TO_DATE, DateStr td), (LIMIT, IntStr (sint limit))];
             self1 = emit (Logged INFO ''Requesting ticks...'') self;
             (response, self2) = send_request env TickReq q self1
         in (case response of
               MessageRejected m \<Rightarrow> (None, emit (Logged ERROR (response_str response)) self2)
             | QueryFailure m \<Rightarrow> (None, emit (Logged ERROR (response_str response)) self2)
             | DataResponse d \<Rightarrow>
                 (case metadata d SYMBOL of
                    None \<Rightarrow> (Some KeyError, self2)
                  | Some name \<Rightarrow>
                      (let (received_symbol, cache) =
                             cache_get (symbol_from_string env) name (cached_symbols self2);
                           self3 = self2\<lparr>cached_symbols := cache\<rparr>
                       in if received_symbol \<noteq> s then (Some AssertionError, self3)
                          else (None,
                                emit (Called callback
                                        (ATicks (deserialize_ticks env received_symbol (data_items d))))
                                  self3)))))))))"

definition request_bars ::
  "(BarType \<Rightarrow> int \<Rightarrow> int \<Rightarrow> 32 word \<Rightarrow> Handler \<Rightarrow> LiveDataClient \<Rightarrow> LiveDataClient outcome)
     \<Rightarrow> Service \<Rightarrow> BarType option \<Rightarrow> int option \<Rightarrow> int option \<Rightarrow> 32 word \<Rightarrow> Handler
     \<Rightarrow> LiveDataClient \<Rightarrow> LiveDataClient outcome" where
  \<comment> \<open>\<open>bulk_build_tick_bars\<close> is the base class's helper for tick bars, not among the source
      files: a parameter.\<close>
  "request_bars bulk_build_tick_bars env bar_type from_date to_date limit callback self =
     (case bar_type of
        None \<Rightarrow> (Some ConditionFailed, self)
      | Some bt \<Rightarrow>
     (case from_date of
        None \<Rightarrow> (Some ConditionFailed, self)
      | Some fd \<Rightarrow>
     (case to_date of
        None \<Rightarrow> (Some ConditionFailed, self)
      | Some td \<Rightarrow>
     (if sint limit < 0 then (Some ConditionFailed, self)
      else if \<not> is_callable callback then (Some ConditionFailed, self)
      else if bar_structure (bar_specification bt) = TICK
      then bulk_build_tick_bars bt fd td limit callback self
      else
        (let q = [(DATA_TYPE, Str ''Bar[]''), (SYMBOL, Str (symbol_value (bar_symbol bt))),
                  (SPECIFICATION, Str (specification_to_string (bar_specification bt))),
                  (FROM_DATE, DateStr fd), (TO_DATE, DateStr td), (LIMIT, IntStr (sint limit))];
             self1 = emit (Logged INFO ''Requesting bars...'') self;
             (response, self2) = send_request env BarReq q self1
         in (case response of
               MessageRejected m \<Rightarrow> (None, emit (Logged ERROR (response_str response)) self2)
             | QueryFailure m \<Rightarrow> (None, emit (Logged ERROR (response_str response)) self2)
             | DataResponse d \<Rightarrow>
                 (case metadata d SYMBOL of
                    None \<Rightarrow> (Some KeyError, self2)
                  | Some name \<Rightarrow>
                 (case metadata d SPECIFICATION of
                    None \<Rightarrow> (Some KeyError, self2)
                  | Some spec \<Rightarrow>
                      (let (received_bar_type, cache) =
                             cache_get (bar_type_from_string env) (name @ ''-'' @ spec)
                               (cached_bar_types self2);
                           self3 = self2\<lparr>cached_bar_types := cache\<rparr>
                       in if received_bar_type \<noteq> bt then (Some AssertionError, self3)
                          else (None,
                                emit (Called callback
                                        (ABars received_bar_type (deserialize_bars env (data_items d))))
                                  self3))))))))))"

definition request_instrument ::
  "Service \<Rightarrow> Symbol option \<Rightarrow> Handler \<Rightarrow> LiveDataClient \<Rightarrow> LiveDataClient outcome" where
  "request_instrument env symbol_arg callback self =
     (case symbol_arg of
        None \<Rightarrow> (Some ConditionFailed, self)
      | Some s \<Rightarrow>
     (if \<not> is_callable callback then (Some ConditionFailed, self)
      else
        (let q = [(DATA_TYPE, Str ''Instrument[]''), (SYMBOL, Str (symbol_value s))];
             self1 = emit (Logged INFO ''Requesting instrument...'') self;
             (response, self2) = send_request env InstReq q self1
         in (case response of
               MessageRejected m \<Rightarrow> (None, emit (Logged ERROR (response_str response)) self2)
             | QueryFailure m \<Rightarrow> (None, emit (Logged ERROR (response_str response)) self2)
             | DataResponse d \<Rightarrow>
                 (case data_items d of
                    [] \<Rightarrow> (Some IndexError, self2)
                  | item # items \<Rightarrow>
                      (let instr = deserialize_instrument env item
                       in if symbol instr \<noteq> s then (Some AssertionError, self2)
                          else (None, emit (Called callback (AInstrument instr)) self2)))))))"

definition request_instruments ::
  "Service \<Rightarrow> Venue \<Rightarrow> Handler \<Rightarrow> LiveDataClient \<Rightarrow> LiveDataClient outcome" where
  "request_instruments env v callback self =
     (if \<not> is_callable callback then (Some ConditionFailed, self)
      else
        (let q = [(DATA_TYPE, Str ''Instrument[]''), (VENUE, Str (venue_value v))];
             self1 = emit (Logged INFO ''Requesting all instruments...'') self;
             (response, self2) = send_request env InstReq q self1
         in (case response of
               MessageRejected m \<Rightarrow> (None, emit (Logged ERROR (response_str response)) self2)
             | QueryFailure m \<Rightarrow> (None, emit (Logged ERROR (response_str response)) self2)
             | DataResponse d \<Rightarrow>
                 (None,
                  emit (Called callback (AInstruments (map (deserialize_instrument env) (data_items d))))
                    self2))))"

definition subscribe_ticks ::
  "Symbol option \<Rightarrow> Handler \<Rightarrow> LiveDataClient \<Rightarrow> LiveDataClient outcome" where
  "subscribe_ticks symbol_arg handler self =
     (case symbol_arg of
        None \<Rightarrow> (Some ConditionFailed, self)
      | Some s \<Rightarrow>
          (if \<not> is_callable handler then (Some ConditionFailed, self)
           else (None, emit (WireSubscribe TickSub (symbol_to_string s))
                         (add_tick_handler s handler self))))"

definition self_generate_bars ::
  "BarType \<Rightarrow> Handler \<Rightarrow> LiveDataClient \<Rightarrow> LiveDataClient outcome" where
  \<comment> \<open>Modelled from the spec: \<open>_self_generate_bars\<close> belongs to the base class, which is not
      among the source files. Section 4.1: the client subscribes to the underlying tick
      stream and drives a tick-counting bar aggregator that synthesizes bars locally and
      forwards them through the same dispatch path. One aggregator serves all handlers of
      a bar type.\<close>
  "self_generate_bars bt handler self =
     (case bar_aggregators self bt of
        Some window \<Rightarrow> (None, add_bar_handler bt handler self)
      | None \<Rightarrow>
          (case subscribe_ticks (Some (bar_symbol bt)) (AggregatorUpdate bt)
                  (self\<lparr>bar_aggregators := (bar_aggregators self)(bt \<mapsto> [])\<rparr>) of
             (Some e, self1) \<Rightarrow> (Some e, self1)
           | (None, self1) \<Rightarrow> (None, add_bar_handler bt handler self1)))"

definition subscribe_bars ::
  "BarType option \<Rightarrow> Handler \<Rightarrow> LiveDataClient \<Rightarrow> LiveDataClient outcome" where
  "subscribe_bars bar_type handler self =
     (case bar_type of
        None \<Rightarrow> (Some ConditionFailed, self)
      | Some bt \<Rightarrow>
          (if \<not> is_callable handler then (Some ConditionFailed, self)
           else if bar_structure (bar_specification bt) = TICK
           then self_generate_bars bt handler self
           else (None, emit (WireSubscribe BarSub (bar_type_to_string bt))
                         (add_bar_handler bt handler self))))"

definition subscribe_instrument ::
  "Symbol option \<Rightarrow> Handler \<Rightarrow> LiveDataClient \<Rightarrow> LiveDataClient outcome" where
  "subscribe_instrument symbol_arg handler self =
     (case symbol_arg of
        None \<Rightarrow> (Some ConditionFailed, self)
      | Some s \<Rightarrow>
          (if \<not> is_callable handler then (Some ConditionFailed, self)
           else (None, emit (WireSubscribe InstSub (symbol_value s))
                         (add_instrument_handler s handler self))))"

definition unsubscribe_ticks ::
  "Symbol option \<Rightarrow> Handler \<Rightarrow> LiveDataClient \<Rightarrow> LiveDataClient outcome" where
  "unsubscribe_ticks symbol_arg handler self =
     (case symbol_arg of
        None \<Rightarrow> (Some ConditionFailed, self)
      | Some s \<Rightarrow>
          (if \<not> is_callable handler then (Some ConditionFailed, self)
           else (None, remove_tick_handler s handler
                         (emit (WireUnsubscribe TickSub (symbol_to_string s)) self))))"

definition unsubscribe_bars ::
  "BarType option \<Rightarrow> Handler \<Rightarrow> LiveDataClient \<Rightarrow> LiveDataClient outcome" where
  "unsubscribe_bars bar_type handler self =
     (case bar_type of
        None \<Rightarrow> (Some ConditionFailed, self)
      | Some bt \<Rightarrow>
          (if \<not> is_callable handler then (Some ConditionFailed, self)
           else (None, remove_bar_handler bt handler
                         (emit (WireUnsubscribe BarSub (bar_type_to_string bt)) self))))"

definition unsubscribe_instrument ::
  "Symbol option \<Rightarrow> Handler \<Rightarrow> LiveDataClient \<Rightarrow> LiveDataClient outcome" where
  "unsubscribe_instrument symbol_arg handler self =
     (case symbol_arg of
        None \<Rightarrow> (Some ConditionFailed, self)
      | Some s \<Rightarrow>
          (if \<not> is_callable handler then (Some ConditionFailed, self)
           else (None, remove_instrument_handler s handler
                         (emit (WireUnsubscribe InstSub (symbol_value s)) self))))"

definition handle_tick_sub :: "Service \<Rightarrow> string \<Rightarrow> string \<Rightarrow> LiveDataClient \<Rightarrow> LiveDataClient" where
  \<comment> \<open>A tick published for a topic: the topic is resolved through the symbol cache, the
      message decoded and the tick dispatched.\<close>
  "handle_tick_sub env topic message self =
     (let (s, cache) = cache_get (symbol_from_string env) topic (cached_symbols self)
      in handle_tick (deserialize_tick env s message) (self\<lparr>cached_symbols := cache\<rparr>))"

definition handle_bar_sub :: "Service \<Rightarrow> string \<Rightarrow> string \<Rightarrow> LiveDataClient \<Rightarrow> LiveDataClient" where
  "handle_bar_sub env topic message self =
     (let (bt, cache) = cache_get (bar_type_from_string env) topic (cached_bar_types self)
      in handle_bar bt (deserialize_bar env message) (self\<lparr>cached_bar_types := cache\<rparr>))"

definition handle_inst_sub :: "Service \<Rightarrow> string \<Rightarrow> string \<Rightarrow> LiveDataClient \<Rightarrow> LiveDataClient" where
  "handle_inst_sub env topic message self =
     handle_instrument (deserialize_instrument env message) self"

section \<open>Observations on traces\<close>

definition new_events :: "'a DataClient_scheme \<Rightarrow> 'b DataClient_scheme \<Rightarrow> Effect list" where
  \<comment> \<open>What an operation appended to the trace.\<close>
  "new_events before after = drop (length (trace before)) (trace after)"

definition occurs_before :: "Effect \<Rightarrow> Effect \<Rightarrow> Effect list \<Rightarrow> bool" where
  \<comment> \<open>\<open>b\<close> occurs, and \<open>a\<close> occurs strictly before the first occurrence of \<open>b\<close>.\<close>
  "occurs_before a b evs = (a \<in> set (takeWhile (\<lambda>e. e \<noteq> b) evs) \<and> b \<in> set evs)"

fun tick_call :: "Tick \<Rightarrow> Effect \<Rightarrow> Handler option" where
  "tick_call tick (Called h (ATick t)) = (if t = tick then Some h else None)"
| "tick_call tick e = None"

definition tick_calls :: "Tick \<Rightarrow> Effect list \<Rightarrow> Handler list" where
  \<comment> \<open>The handlers called with the tick, in the order of the calls.\<close>
  "tick_calls tick evs = List.map_filter (tick_call tick) evs"


fun is_bar_subscribe :: "Effect \<Rightarrow> bool" where
  "is_bar_subscribe (WireSubscribe ch topic) = (ch = BarSub)"
| "is_bar_subscribe e = False"



section \<open>Example data\<close>

definition AUDUSD :: Symbol where
  "AUDUSD = \<lparr>code = ''AUDUSD'', venue = Venue ''FXCM''\<rparr>"

definition GBPUSD :: Symbol where
  "GBPUSD = \<lparr>code = ''GBPUSD'', venue = Venue ''FXCM''\<rparr>"

definition audusd :: Instrument where
  "audusd = \<lparr>symbol = AUDUSD, tick_precision = 5\<rparr>"

definition gbpusd :: Instrument where
  "gbpusd = \<lparr>symbol = GBPUSD, tick_precision = 5\<rparr>"

fun row_tick :: "Symbol \<Rightarrow> int \<times> int list \<Rightarrow> Tick list" where
  "row_tick s (t, b # a # cols) = [\<lparr>tick_symbol = s, bid = b, ask = a, timestamp = t\<rparr>]"
| "row_tick s (t, cols) = []"

definition example_wrangler :: TickDataWrangler where
  \<comment> \<open>Modelled from the spec: a stand-in for the external tick builder, which produces one
      ascending-timestamp tick sequence per instrument. Here: the rows of the tick table,
      when there is one, in ascending time order; without a tick table, one tick per bid
      bar.\<close>
  "example_wrangler s precision tick_data bid_data ask_data =
     (case tick_data of
        Some df \<Rightarrow> sort_key timestamp (concat (map (row_tick s) df))
      | None \<Rightarrow> sort_key timestamp (concat (map (row_tick s) bid_data)))"

definition minute_bars :: "BarStructure \<rightharpoonup> DataFrame" where
  "minute_bars = [MINUTE \<mapsto> [(0, [10, 11, 9, 10])]]"

definition two_instruments :: BacktestDataContainer where
  \<comment> \<open>AUDUSD is added first and its only tick is the later one.\<close>
  "two_instruments =
     \<lparr>instruments = [(AUDUSD, audusd), (GBPUSD, gbpusd)],
      ticks = [(AUDUSD, [(5, [10, 11])]), (GBPUSD, [(1, [20, 21])])],
      bars_bid = [(AUDUSD, minute_bars), (GBPUSD, minute_bars)],
      bars_ask = [(AUDUSD, minute_bars), (GBPUSD, minute_bars)]\<rparr>"

definition ticks_only :: BacktestDataContainer where
  \<comment> \<open>An instrument with a tick table and no bar tables.\<close>
  "ticks_only =
     \<lparr>instruments = [(AUDUSD, audusd)],
      ticks = [(AUDUSD, [(5, [10, 11])])],
      bars_bid = [],
      bars_ask = []\<rparr>"

definition bars_only :: BacktestDataContainer where
  \<comment> \<open>An instrument with bar tables and no tick table.\<close>
  "bars_only =
     \<lparr>instruments = [(AUDUSD, audusd)],
      ticks = [],
      bars_bid = [(AUDUSD, minute_bars)],
      bars_ask = [(AUDUSD, minute_bars)]\<rparr>"

definition stray_ticks :: BacktestDataContainer where
  \<comment> \<open>AUDUSD with its instrument, ticks and bars, and a tick table for GBPUSD, which has
      no instrument.\<close>
  "stray_ticks =
     \<lparr>instruments = [(AUDUSD, audusd)],
      ticks = [(AUDUSD, [(5, [10, 11])]), (GBPUSD, [(1, [20, 21])])],
      bars_bid = [(AUDUSD, minute_bars)],
      bars_ask = [(AUDUSD, minute_bars)]\<rparr>"

definition clock0 :: TestClock where
  "clock0 = \<lparr>time_now = 0, timers = [], pending_events = []\<rparr>"

definition alert5 :: TimeEvent where
  "alert5 = \<lparr>event_label = ''alert-5'', event_timestamp = 5\<rparr>"

definition alert20 :: TimeEvent where
  "alert20 = \<lparr>event_label = ''alert-20'', event_timestamp = 20\<rparr>"

definition clock_with_timers :: TestClock where
  "clock_with_timers =
     \<lparr>time_now = 0, timers = [(alert5, Handler 7), (alert20, Handler 8)], pending_events = []\<rparr>"

definition tick10 :: Tick where
  "tick10 = \<lparr>tick_symbol = AUDUSD, bid = 10, ask = 11, timestamp = 10\<rparr>"

definition tick3 :: Tick where
  "tick3 = \<lparr>tick_symbol = AUDUSD, bid = 9, ask = 10, timestamp = 3\<rparr>"

definition tick12 :: Tick where
  "tick12 = \<lparr>tick_symbol = AUDUSD, bid = 12, ask = 13, timestamp = 12\<rparr>"

definition backtest_client :: "TestClock \<Rightarrow> BacktestDataClient" where
  \<comment> \<open>A constructed client with one subscriber to AUDUSD ticks.\<close>
  "backtest_client c =
     \<lparr>client_instruments = [(AUDUSD, audusd)],
      tick_handlers = [AUDUSD \<mapsto> [Handler 1]],
      bar_handlers = Map.empty,
      instrument_handlers = Map.empty,
      bar_aggregators = Map.empty,
      trace = [],
      data_providers = [],
      client_ticks = [tick10],
      min_timestamp = 10,
      max_timestamp = 10,
      clock = c\<rparr>"

definition live_client :: LiveDataClient where
  "live_client =
     \<lparr>client_instruments = [],
      tick_handlers = Map.empty,
      bar_handlers = Map.empty,
      instrument_handlers = Map.empty,
      bar_aggregators = Map.empty,
      trace = [],
      cached_symbols = Map.empty,
      cached_bar_types = Map.empty,
      guid_count = 0\<rparr>"

definition minute_bid :: BarType where
  "minute_bid =
     \<lparr>bar_symbol = AUDUSD,
      bar_specification = \<lparr>step = 1, bar_structure = MINUTE, price_type = BID\<rparr>\<rparr>"

definition two_tick_bid :: BarType where
  "two_tick_bid =
     \<lparr>bar_symbol = AUDUSD,
      bar_specification = \<lparr>step = 2, bar_structure = TICK, price_type = BID\<rparr>\<rparr>"

definition parse_symbol :: "string \<Rightarrow> Symbol" where
  \<comment> \<open>Modelled from the spec: a stand-in for \<open>Symbol.from_string\<close>, the inverse of the
      canonical string form (code, a dot, venue).\<close>
  "parse_symbol str =
     \<lparr>code = takeWhile (\<lambda>c. c \<noteq> CHR ''.'') str,
      venue = Venue (drop 1 (dropWhile (\<lambda>c. c \<noteq> CHR ''.'') str))\<rparr>"

definition example_service :: "Response \<Rightarrow> Service" where
  \<comment> \<open>A data service that gives the same reply to every request, with stand-ins for the
      codecs.\<close>
  "example_service r =
     \<lparr>reply = (\<lambda>ch req. r),
      live_time_now = 100,
      symbol_from_string = parse_symbol,
      bar_type_from_string = (\<lambda>str. minute_bid),
      deserialize_ticks = (\<lambda>s items. map (\<lambda>i. tick10\<lparr>tick_symbol := s\<rparr>) items),
      deserialize_bars = (\<lambda>items. map (\<lambda>i. Bar [tick10]) items),
      deserialize_tick = (\<lambda>s i. if i = ''12'' then tick12 else tick10),
      deserialize_bar = (\<lambda>i. Bar [tick10]),
      deserialize_instrument = (\<lambda>i. audusd)\<rparr>"

definition audusd_data :: ResponseData where
  "audusd_data =
     \<lparr>metadata = [SYMBOL \<mapsto> ''AUDUSD.FXCM'', SPECIFICATION \<mapsto> ''1-MINUTE[BID]''],
      data_items = [''item'']\<rparr>"


definition audusd_reply :: Response where
  "audusd_reply = DataResponse audusd_data"

definition audusd_service :: Service where
  "audusd_service = example_service (DataResponse audusd_data)"







definition subscribed_client :: LiveDataClient where
  \<comment> \<open>A client after two subscriptions to AUDUSD ticks, one to minute bars and one to the
      AUDUSD instrument.\<close>
  "subscribed_client =
     snd (subscribe_instrument (Some AUDUSD) (Handler 4)
       (snd (subscribe_bars (Some minute_bid) (Handler 4)
         (snd (subscribe_ticks (Some AUDUSD) (Handler 5)
           (snd (subscribe_ticks (Some AUDUSD) (Handler 4) live_client)))))))"

definition no_bulk ::
  "BarType \<Rightarrow> int \<Rightarrow> int \<Rightarrow> 32 word \<Rightarrow> Handler \<Rightarrow> LiveDataClient \<Rightarrow> LiveDataClient outcome" where
  "no_bulk bt fd td limit callback self = (None, self)"

section \<open>Facts about the shared operations\<close>

lemma emit_fields [simp]:
  "client_instruments (emit e self) = client_instruments self"
  "tick_handlers (emit e self) = tick_handlers self"
  "bar_handlers (emit e self) = bar_handlers self"
  "instrument_handlers (emit e self) = instrument_handlers self"
  "bar_aggregators (emit e self) = bar_aggregators self"
  "trace (emit e self) = trace self @ [e]"
  "DataClient.more (emit e self) = DataClient.more self"
  by (simp_all add: emit_def)

lemma fold_emit_fields [simp]:
  "client_instruments (fold (\<lambda>h. emit (f h)) hs self) = client_instruments self"
  "tick_handlers (fold (\<lambda>h. emit (f h)) hs self) = tick_handlers self"
  "bar_handlers (fold (\<lambda>h. emit (f h)) hs self) = bar_handlers self"
  "instrument_handlers (fold (\<lambda>h. emit (f h)) hs self) = instrument_handlers self"
  "bar_aggregators (fold (\<lambda>h. emit (f h)) hs self) = bar_aggregators self"
  "DataClient.more (fold (\<lambda>h. emit (f h)) hs self) = DataClient.more self"
  by (induction hs arbitrary: self; simp)+

lemma fold_emit_trace [simp]:
  "trace (fold (\<lambda>h. emit (f h)) hs self) = trace self @ map f hs"
  by (induction hs arbitrary: self) simp_all

lemma new_events_self [simp]: "new_events self self = []"
  by (simp add: new_events_def)

lemma tick_calls_Nil [simp]: "tick_calls tick [] = []"
  by (simp add: tick_calls_def map_filter_def)

lemma tick_calls_append [simp]:
  "tick_calls tick (xs @ ys) = tick_calls tick xs @ tick_calls tick ys"
  by (simp add: tick_calls_def map_filter_def)

lemma tick_calls_bars [simp]: "tick_calls tick (map (\<lambda>h. Called h (ABar bt b)) hs) = []"
  by (induction hs) (simp_all add: tick_calls_def map_filter_def)

lemma handle_bar_fields [simp]:
  "tick_handlers (handle_bar bt b self) = tick_handlers self"
  "bar_handlers (handle_bar bt b self) = bar_handlers self"
  "bar_aggregators (handle_bar bt b self) = bar_aggregators self"
  "DataClient.more (handle_bar bt b self) = DataClient.more self"
  "trace (handle_bar bt b self) =
     trace self @ map (\<lambda>h. Called h (ABar bt b)) (registered (bar_handlers self) bt)"
  by (simp_all add: handle_bar_def)

lemma aggregator_update_fields [simp]:
  "tick_handlers (aggregator_update bt tick self) = tick_handlers self"
  "bar_handlers (aggregator_update bt tick self) = bar_handlers self"
  "DataClient.more (aggregator_update bt tick self) = DataClient.more self"
  by (simp_all add: aggregator_update_def split: option.splits)

lemma aggregator_update_trace:
  "\<exists>evs. trace (aggregator_update bt tick self) = trace self @ evs \<and> tick_calls t evs = []"
  by (simp add: aggregator_update_def split: option.splits)

text \<open>
  The aggregator forwards a bar through \<open>handle_bar\<close> exactly when the configured tick
  count has accumulated; until then it only collects.
\<close>

lemma aggregator_update_delivers:
  assumes "bar_aggregators self bt = Some window"
  shows "if step (bar_specification bt) \<le> Suc (length window)
         then trace (aggregator_update bt tick self) =
                trace self @ map (\<lambda>h. Called h (ABar bt (Bar (window @ [tick]))))
                                (registered (bar_handlers self) bt) \<and>
              bar_aggregators (aggregator_update bt tick self) bt = Some []
         else trace (aggregator_update bt tick self) = trace self \<and>
              bar_aggregators (aggregator_update bt tick self) bt = Some (window @ [tick])"
  using assms by (simp add: aggregator_update_def)

text \<open>
  A bar published by the remote service takes the same path: \<open>handle_bar\<close>, for the bar
  type its topic names.
\<close>

lemma handle_bar_sub_dispatch:
  "trace (handle_bar_sub env topic message self) =
     trace self @
     map (\<lambda>h. Called h
            (ABar (fst (cache_get (bar_type_from_string env) topic (cached_bar_types self)))
               (deserialize_bar env message)))
       (registered (bar_handlers self)
          (fst (cache_get (bar_type_from_string env) topic (cached_bar_types self))))"
  by (simp add: handle_bar_sub_def split_beta)

lemma call_tick_handler_fields [simp]:
  "tick_handlers (call_tick_handler tick h self) = tick_handlers self"
  "bar_handlers (call_tick_handler tick h self) = bar_handlers self"
  "DataClient.more (call_tick_handler tick h self) = DataClient.more self"
  by (simp_all add: call_tick_handler_def split: Handler.splits)

lemma call_tick_handler_trace:
  "\<exists>evs. trace (call_tick_handler tick h self) = trace self @ evs \<and> tick_calls tick evs = [h]"
proof (cases h)
  case (AggregatorUpdate bt)
  obtain evs where
    "trace (aggregator_update bt tick (emit (Called h (ATick tick)) self)) =
       trace (emit (Called h (ATick tick)) self) @ evs"
    "tick_calls tick evs = []"
    using aggregator_update_trace by blast
  then show ?thesis using AggregatorUpdate
    by (simp add: call_tick_handler_def tick_calls_def map_filter_def)
qed (simp_all add: call_tick_handler_def tick_calls_def map_filter_def)

lemma fold_call_tick_handler_more [simp]:
  "DataClient.more (fold (call_tick_handler tick) hs self) = DataClient.more self"
  by (induction hs arbitrary: self) simp_all

lemma fold_call_tick_handler_trace:
  "\<exists>evs. trace (fold (call_tick_handler tick) hs self) = trace self @ evs \<and>
         tick_calls tick evs = hs"
proof (induction hs arbitrary: self)
  case Nil
  then show ?case by simp
next
  case (Cons h hs)
  obtain e1 where e1:
    "trace (call_tick_handler tick h self) = trace self @ e1" "tick_calls tick e1 = [h]"
    using call_tick_handler_trace by blast
  obtain e2 where e2:
    "trace (fold (call_tick_handler tick) hs (call_tick_handler tick h self)) =
       trace (call_tick_handler tick h self) @ e2"
    "tick_calls tick e2 = hs"
    using Cons.IH by blast
  show ?case using e1 e2 by simp
qed

lemma handle_tick_more [simp]: "DataClient.more (handle_tick tick self) = DataClient.more self"
  by (simp add: handle_tick_def)

lemma handle_tick_clock [simp]: "clock (handle_tick tick self) = clock self"
proof -
  have same: "clock a = clock b" if "DataClient.more a = DataClient.more b"
    for a b :: "'z BacktestDataClient_scheme"
    using that by (cases a, cases b) simp
  show ?thesis by (rule same) simp
qed

text \<open>
  The dispatch calls every handler registered for the tick's symbol exactly once with the
  tick, in registration order.
\<close>

lemma handle_tick_dispatch:
  "tick_calls tick (new_events self (handle_tick tick self)) =
     registered (tick_handlers self) (tick_symbol tick)"
  using fold_call_tick_handler_trace
          [of tick "registered (tick_handlers self) (tick_symbol tick)" self]
  by (auto simp: handle_tick_def new_events_def)

lemma fold_emit_event_trace:
  "trace (fold (\<lambda>(event, handler). emit (Called handler (AEvent event))) evs self) =
     trace self @ map (\<lambda>(event, handler). Called handler (AEvent event)) evs"
  by (induction evs arbitrary: self) (simp_all add: case_prod_beta)

lemma fold_emit_event_clock:
  "clock (fold (\<lambda>(event, handler). emit (Called handler (AEvent event))) evs self) = clock self"
  by (induction evs arbitrary: self) (simp_all add: case_prod_beta emit_def)

section \<open>Backtest: driving the clock from the ticks\<close>

text \<open>
  C1, as amended. \<open>process_tick\<close> first dispatches the tick to the handlers registered for
  its symbol, whatever the clock says. Then, if the clock has pending timers and the
  earliest trigger time is later than the tick's timestamp, it returns: the clock is as it
  was and nothing more is called. Otherwise, and that includes a clock with no pending
  timers, it advances the clock to the tick's timestamp and calls the callback of every
  event then pending, the timers now due among them.
\<close>

theorem process_tick_dispatches_then_fires_due_timers:
  "tick_calls tick (new_events self (handle_tick tick self)) =
     registered (tick_handlers self) (tick_symbol tick) \<and>
   (if has_timers (clock self) \<and> timestamp tick < next_event_time (clock self)
    then clock (process_tick tick self) = clock self \<and>
         trace (process_tick tick self) = trace (handle_tick tick self)
    else clock (process_tick tick self) =
           \<lparr>time_now = timestamp tick,
            timers = filter (\<lambda>x. \<not> due (timestamp tick) x) (timers (clock self)),
            pending_events = []\<rparr> \<and>
         trace (process_tick tick self) =
           trace (handle_tick tick self) @
           map (\<lambda>(event, handler). Called handler (AEvent event))
             (pending_events (clock self) @ filter (due (timestamp tick)) (timers (clock self))))"
  by (simp add: handle_tick_dispatch process_tick_def Let_def get_pending_events_def
        advance_time_def fold_emit_event_trace fold_emit_event_clock)

text \<open>
  On a clock with alerts at 5 and 20: the tick at 3 is only dispatched; the tick at 10 is
  dispatched, the clock is advanced to 10 and the alert of 5 is called.
\<close>

theorem process_tick_dispatches_then_fires_due_timers_witness:
  "trace (process_tick tick3 (backtest_client clock_with_timers)) =
     [Called (Handler 1) (ATick tick3)] \<and>
   clock (process_tick tick3 (backtest_client clock_with_timers)) = clock_with_timers \<and>
   trace (process_tick tick10 (backtest_client clock_with_timers)) =
     [Called (Handler 1) (ATick tick10), Called (Handler 7) (AEvent alert5)] \<and>
   clock (process_tick tick10 (backtest_client clock_with_timers)) =
     \<lparr>time_now = 10, timers = [(alert20, Handler 8)], pending_events = []\<rparr>"
proof -
  have n: "has_timers clock_with_timers" "next_event_time clock_with_timers = 5"
    by (simp_all add: has_timers_def next_event_time_def clock_with_timers_def
          alert5_def alert20_def)
  have d: "trace (handle_tick t (backtest_client clock_with_timers)) =
             (if tick_symbol t = AUDUSD then [Called (Handler 1) (ATick t)] else [])" for t
    by (simp add: handle_tick_def backtest_client_def registered_def call_tick_handler_def)
  from process_tick_dispatches_then_fires_due_timers
         [where tick = tick3 and self = "backtest_client clock_with_timers"]
       process_tick_dispatches_then_fires_due_timers
         [where tick = tick10 and self = "backtest_client clock_with_timers"]
       n d
  show ?thesis
    by (simp add: backtest_client_def tick3_def tick10_def clock_with_timers_def due_def
          alert5_def alert20_def)
qed

text \<open>
  C1 as stated fails on a clock with no pending timers: the claim has \<open>process_tick\<close> return
  without advancing the clock, the code sets the clock to the tick's timestamp.
\<close>

theorem process_tick_no_timers_advances_clock:
  "\<not> has_timers (clock (backtest_client clock0)) \<and>
   time_now (clock (backtest_client clock0)) = 0 \<and>
   time_now (clock (process_tick tick10 (backtest_client clock0))) = 10"
  by (simp add: process_tick_def Let_def get_pending_events_def advance_time_def
        fold_emit_event_clock has_timers_def backtest_client_def clock0_def tick10_def)

section \<open>Backtest: construction\<close>

lemma handle_instrument_instruments:
  "client_instruments (handle_instrument i self) =
     AList.update (symbol i) i (client_instruments self)"
  by (simp add: handle_instrument_def)

lemma fold_handle_instrument_dom:
  "dom (map_of (client_instruments (fold handle_instrument xs self))) =
     dom (map_of (client_instruments self)) \<union> symbol ` set xs"
  by (induction xs arbitrary: self) (auto simp: handle_instrument_instruments update_conv')

lemma init_instruments_dom:
  "dom (map_of (client_instruments
          (fold handle_instrument (map snd (instruments d)) DataClient_init))) =
     symbol ` snd ` set (instruments d)"
  by (simp add: fold_handle_instrument_dom DataClient_init_def)

lemma init_instruments_known:
  "(\<exists>i. map_of (client_instruments
             (fold handle_instrument (map snd (instruments d)) DataClient_init)) s = Some i) =
     (s \<in> symbol ` snd ` set (instruments d))"
  using init_instruments_dom [of d] by (metis domIff not_Some_eq)

lemma DataProvider_init_error: "DataProvider_init w i t bb ba = Inl e \<Longrightarrow> e = KeyError"
  by (auto simp: DataProvider_init_def bars_at_def split: if_splits option.splits sum.splits)

lemma create_providers_error: "create_providers w d xs = Inl e \<Longrightarrow> e = KeyError"
  by (induction xs arbitrary: e)
     (auto split: option.splits sum.splits dest: DataProvider_init_error)

lemma create_providers_missing_bars:
  "(s, i) \<in> set xs \<Longrightarrow> map_of (bars_bid d) s = None \<or> map_of (bars_ask d) s = None
     \<Longrightarrow> create_providers w d xs = Inl KeyError"
proof (induction xs)
  case Nil
  then show ?case by simp
next
  case (Cons x xs)
  obtain s' i' where x: "x = (s', i')" by (cases x)
  show ?case
  proof (cases "(s, i) = x")
    case True
    with Cons.prems x show ?thesis by (auto split: option.splits)
  next
    case False
    with Cons x have "create_providers w d xs = Inl KeyError" by auto
    then show ?thesis using x
      by (auto split: option.splits sum.splits dest: DataProvider_init_error)
  qed
qed

lemma completeness_assertion_holds:
  "list_all (\<lambda>s. truthy (PyTuple [PyBool b, PyStr (needed_instrument_message s)])) xs"
  by (simp add: list_all_iff)

text \<open>
  The assertion of the completeness check cannot fail: construction never raises it.
\<close>

lemma init_never_asserts: "BacktestDataClient_init w v d clk logger \<noteq> Inl AssertionError"
  by (auto simp: BacktestDataClient_init_def Let_def list_all_iff
           split: option.splits sum.splits list.splits dest: create_providers_error)

text \<open>
  C2 does not hold of the code. The container \<open>stray_ticks\<close> has a tick table keyed by
  GBPUSD and no instrument for GBPUSD, and construction returns a client: it holds the one
  provider of AUDUSD, and the GBPUSD ticks are left out of its stream.
\<close>

theorem init_accepts_table_without_instrument:
  "GBPUSD \<in> set (data_symbols stray_ticks) \<and>
   GBPUSD \<notin> symbol ` snd ` set (instruments stray_ticks) \<and>
   map_sum id (\<lambda>c. (map fst (data_providers c), map tick_symbol (client_ticks c)))
     (BacktestDataClient_init example_wrangler (Venue ''FXCM'') stray_ticks
        (Some clock0) (Some (Logger ''log''))) =
   Inr ([AUDUSD], [AUDUSD])"
  by (simp add: BacktestDataClient_init_def stray_ticks_def DataClient_init_def
        handle_instrument_def registered_def data_symbols_def audusd_def
        AUDUSD_def GBPUSD_def DataProvider_init_def bars_at_def example_wrangler_def
        all_ticks_def minute_bars_def)

text \<open>
  C10. The provider loop looks every instrument's symbol up in the bid-bar and the ask-bar
  dictionary without a guard, while the tick table is optional (\<open>None\<close> is passed on when
  the symbol has no tick table). So when either bar dictionary lacks the symbol of an
  instrument of the container, construction with a clock and a logger raises a lookup
  error.
\<close>

theorem init_bar_lookup_unguarded:
  assumes "(k, i) \<in> set (instruments d)"
      and "map_of (bars_bid d) (symbol i) = None \<or> map_of (bars_ask d) (symbol i) = None"
  shows "BacktestDataClient_init w v d (Some c) (Some l) = Inl KeyError"
proof -
  let ?base = "fold handle_instrument (map snd (instruments d)) DataClient_init"
  from assms(1) have "symbol i \<in> symbol ` snd ` set (instruments d)"
    by force
  then obtain i' where "map_of (client_instruments ?base) (symbol i) = Some i'"
    using init_instruments_known [of d "symbol i"] by blast
  then have "(symbol i, i') \<in> set (client_instruments ?base)"
    by (rule map_of_SomeD)
  then have "create_providers w d (client_instruments ?base) = Inl KeyError"
    using assms(2) by (rule create_providers_missing_bars)
  then show ?thesis
    by (simp add: BacktestDataClient_init_def Let_def list_all_iff)
qed

text \<open>
  The witness: with a tick table and no bar tables construction raises the lookup error;
  with bar tables and no tick table it returns a client.
\<close>

theorem init_bar_lookup_unguarded_witness:
  "(AUDUSD, audusd) \<in> set (instruments ticks_only) \<and>
   (map_of (bars_bid ticks_only) (symbol audusd) = None \<or>
    map_of (bars_ask ticks_only) (symbol audusd) = None) \<and>
   BacktestDataClient_init example_wrangler (Venue ''FXCM'') ticks_only
     (Some clock0) (Some (Logger ''log'')) = Inl KeyError \<and>
   map_of (ticks bars_only) AUDUSD = None \<and>
   map_sum id (\<lambda>c. map timestamp (client_ticks c))
     (BacktestDataClient_init example_wrangler (Venue ''FXCM'') bars_only
        (Some clock0) (Some (Logger ''log''))) = Inr [0]"
proof -
  have a: "(AUDUSD, audusd) \<in> set (instruments ticks_only)"
    by (simp add: ticks_only_def)
  have b: "map_of (bars_bid ticks_only) (symbol audusd) = None \<or>
           map_of (bars_ask ticks_only) (symbol audusd) = None"
    by (simp add: ticks_only_def)
  have c: "map_of (ticks bars_only) AUDUSD = None \<and>
           map_sum id (\<lambda>c. map timestamp (client_ticks c))
             (BacktestDataClient_init example_wrangler (Venue ''FXCM'') bars_only
                (Some clock0) (Some (Logger ''log''))) = Inr [0]"
    by (simp add: BacktestDataClient_init_def bars_only_def DataClient_init_def
          handle_instrument_def registered_def data_symbols_def audusd_def
          DataProvider_init_def bars_at_def example_wrangler_def all_ticks_def minute_bars_def)
  from init_bar_lookup_unguarded
         [OF a b, where w = example_wrangler and v = "Venue ''FXCM''" and c = clock0
            and l = "Logger ''log''"]
       a b c
  show ?thesis by simp
qed

text \<open>
  What construction records: the stored tick stream is the concatenation of the providers'
  ticks sorted by timestamp, and the two recorded timestamps are those of the first and the
  last tick of the concatenation as it was before sorting.
\<close>

lemma init_ticks_sorted:
  assumes "BacktestDataClient_init w v d clk logger = Inr c"
  shows "sorted (map timestamp (client_ticks c)) \<and>
         mset (client_ticks c) = mset (all_ticks (data_providers c))"
  using assms
  by (auto simp: BacktestDataClient_init_def Let_def simp del: sort_key_simps
           split: option.splits if_splits sum.splits list.splits)

lemma init_min_max_recorded:
  assumes "BacktestDataClient_init w v d clk logger = Inr c"
  shows "all_ticks (data_providers c) \<noteq> [] \<and>
         min_timestamp c = timestamp (hd (all_ticks (data_providers c))) \<and>
         max_timestamp c = timestamp (last (all_ticks (data_providers c)))"
  using assms
  by (auto simp: BacktestDataClient_init_def Let_def simp del: sort_key_simps
           split: option.splits if_splits sum.splits list.splits)

text \<open>
  C3 does not hold of the code. On a container whose first instrument has the later tick,
  the stored stream is sorted, but the recorded minimum is the later timestamp and the
  recorded maximum the earlier one: they are read from the unsorted list.
\<close>

theorem init_min_max_read_from_unsorted_ticks:
  "map_sum id (\<lambda>c. (map timestamp (client_ticks c), min_timestamp c, max_timestamp c))
     (BacktestDataClient_init example_wrangler (Venue ''FXCM'') two_instruments
        (Some clock0) (Some (Logger ''log''))) =
   Inr ([1, 5], 5, 1)"
  by (simp add: BacktestDataClient_init_def two_instruments_def DataClient_init_def
        handle_instrument_def registered_def data_symbols_def audusd_def gbpusd_def
        AUDUSD_def GBPUSD_def DataProvider_init_def bars_at_def example_wrangler_def
        all_ticks_def minute_bars_def)

section \<open>Live: requests\<close>

lemma emit_live_fields [simp]:
  "cached_symbols (emit e self) = cached_symbols self"
  "cached_bar_types (emit e self) = cached_bar_types self"
  "guid_count (emit e self) = guid_count self"
  by (simp_all add: emit_def)

lemma send_request_simps [simp]:
  "fst (send_request env ch q self) =
     reply env ch
       \<lparr>query = q, request_id = guid_count self, request_timestamp = live_time_now env\<rparr>"
  "trace (snd (send_request env ch q self)) =
     trace self @
     [Sent ch \<lparr>query = q, request_id = guid_count self, request_timestamp = live_time_now env\<rparr>]"
  "cached_symbols (snd (send_request env ch q self)) = cached_symbols self"
  "cached_bar_types (snd (send_request env ch q self)) = cached_bar_types self"
  by (simp_all add: send_request_def Let_def)

text \<open>
  C4. With a negative limit, \<open>request_ticks\<close> and \<open>request_bars\<close> raise the precondition
  violation and leave the client as it was: nothing is logged, serialized or sent, and the
  callback is not called.
\<close>

theorem negative_limit_fails_before_send:
  assumes "sint limit < 0"
  shows "request_ticks env sa fd td limit cb self = (Some ConditionFailed, self) \<and>
         request_bars bulk env ba fd td limit cb self = (Some ConditionFailed, self) \<and>
         new_events self (snd (request_ticks env sa fd td limit cb self)) = [] \<and>
         new_events self (snd (request_bars bulk env ba fd td limit cb self)) = []"
  using assms by (simp add: request_ticks_def request_bars_def split: option.splits)

theorem negative_limit_fails_before_send_witness:
  "sint (- 1 :: 32 word) < 0 \<and>
   request_ticks (example_service audusd_reply) (Some AUDUSD) (Some 1) (Some 2) (- 1) (Handler 3)
     live_client = (Some ConditionFailed, live_client) \<and>
   request_bars no_bulk (example_service audusd_reply) (Some minute_bid) (Some 1) (Some 2) (- 1)
     (Handler 3) live_client = (Some ConditionFailed, live_client)"
  using negative_limit_fails_before_send
          [where limit = "- 1" and env = "example_service audusd_reply" and sa = "Some AUDUSD"
             and fd = "Some 1" and td = "Some 2" and cb = "Handler 3" and self = live_client
             and bulk = no_bulk and ba = "Some minute_bid"]
  by simp











text \<open>
  With well-formed arguments each operation does send its request.
\<close>

lemma request_ticks_sends:
  assumes "\<not> sint limit < 0" and "is_callable cb"
  shows "Sent TickReq
           \<lparr>query = [(DATA_TYPE, Str ''Tick[]''), (SYMBOL, Str (symbol_value s)),
                     (FROM_DATE, DateStr f), (TO_DATE, DateStr t), (LIMIT, IntStr (sint limit))],
            request_id = guid_count self, request_timestamp = live_time_now env\<rparr>
         \<in> set (new_events self
                  (snd (request_ticks env (Some s) (Some f) (Some t) limit cb self)))"
  using assms
  by (simp add: request_ticks_def Let_def split_beta new_events_def
         split: Response.splits option.splits)

lemma request_bars_sends:
  assumes "\<not> sint limit < 0" and "is_callable cb" and "bar_structure (bar_specification bt) \<noteq> TICK"
  shows "Sent BarReq
           \<lparr>query = [(DATA_TYPE, Str ''Bar[]''), (SYMBOL, Str (symbol_value (bar_symbol bt))),
                     (SPECIFICATION, Str (specification_to_string (bar_specification bt))),
                     (FROM_DATE, DateStr f), (TO_DATE, DateStr t), (LIMIT, IntStr (sint limit))],
            request_id = guid_count self, request_timestamp = live_time_now env\<rparr>
         \<in> set (new_events self
                  (snd (request_bars bulk env (Some bt) (Some f) (Some t) limit cb self)))"
  using assms
  by (simp add: request_bars_def Let_def split_beta new_events_def
         split: Response.splits option.splits)

lemma request_instrument_sends:
  assumes "is_callable cb"
  shows "Sent InstReq
           \<lparr>query = [(DATA_TYPE, Str ''Instrument[]''), (SYMBOL, Str (symbol_value s))],
            request_id = guid_count self, request_timestamp = live_time_now env\<rparr>
         \<in> set (new_events self (snd (request_instrument env (Some s) cb self)))"
  using assms
  by (simp add: request_instrument_def Let_def split_beta new_events_def
         split: Response.splits list.splits)

lemma request_instruments_sends:
  assumes "is_callable cb"
  shows "Sent InstReq
           \<lparr>query = [(DATA_TYPE, Str ''Instrument[]''), (VENUE, Str (venue_value v))],
            request_id = guid_count self, request_timestamp = live_time_now env\<rparr>
         \<in> set (new_events self (snd (request_instruments env v cb self)))"
  using assms
  by (simp add: request_instruments_def Let_def split_beta new_events_def
         split: Response.splits)






section \<open>Live: subscriptions\<close>

lemma registered_add [simp]: "registered (registry_add k h reg) k = registered reg k @ [h]"
  by (simp add: registry_add_def registered_def)

lemma add_handler_simps [simp]:
  "trace (add_tick_handler s h self) = trace self @ [TickHandlerAdded s h]"
  "tick_handlers (add_tick_handler s h self) = registry_add s h (tick_handlers self)"
  "bar_handlers (add_tick_handler s h self) = bar_handlers self"
  "bar_aggregators (add_tick_handler s h self) = bar_aggregators self"
  "trace (add_bar_handler bt h self) = trace self @ [BarHandlerAdded bt h]"
  "bar_handlers (add_bar_handler bt h self) = registry_add bt h (bar_handlers self)"
  "tick_handlers (add_bar_handler bt h self) = tick_handlers self"
  "bar_aggregators (add_bar_handler bt h self) = bar_aggregators self"
  "trace (add_instrument_handler s h self) = trace self @ [InstrumentHandlerAdded s h]"
  "instrument_handlers (add_instrument_handler s h self) =
     registry_add s h (instrument_handlers self)"
  by (simp_all add: add_tick_handler_def add_bar_handler_def add_instrument_handler_def emit_def)

lemma remove_handler_simps [simp]:
  "trace (remove_tick_handler s h self) = trace self @ [TickHandlerRemoved s h]"
  "tick_handlers (remove_tick_handler s h self) = registry_remove s h (tick_handlers self)"
  "trace (remove_bar_handler bt h self) = trace self @ [BarHandlerRemoved bt h]"
  "bar_handlers (remove_bar_handler bt h self) = registry_remove bt h (bar_handlers self)"
  "trace (remove_instrument_handler s h self) = trace self @ [InstrumentHandlerRemoved s h]"
  "instrument_handlers (remove_instrument_handler s h self) =
     registry_remove s h (instrument_handlers self)"
  by (simp_all add: remove_tick_handler_def remove_bar_handler_def
        remove_instrument_handler_def emit_def)

lemma self_generate_bars_events:
  "new_events self (snd (self_generate_bars bt h self)) =
     (if bar_aggregators self bt = None
      then [TickHandlerAdded (bar_symbol bt) (AggregatorUpdate bt),
            WireSubscribe TickSub (symbol_to_string (bar_symbol bt)),
            BarHandlerAdded bt h]
      else [BarHandlerAdded bt h])"
  by (simp add: self_generate_bars_def subscribe_ticks_def is_callable_def new_events_def
         split: option.splits)

lemma self_generate_bars_state:
  "fst (self_generate_bars bt h self) = None"
  "bar_aggregators (snd (self_generate_bars bt h self)) bt =
     (if bar_aggregators self bt = None then Some [] else bar_aggregators self bt)"
  "registered (bar_handlers (snd (self_generate_bars bt h self))) bt =
     registered (bar_handlers self) bt @ [h]"
  "registered (tick_handlers (snd (self_generate_bars bt h self))) (bar_symbol bt) =
     (if bar_aggregators self bt = None
      then registered (tick_handlers self) (bar_symbol bt) @ [AggregatorUpdate bt]
      else registered (tick_handlers self) (bar_symbol bt))"
  by (simp_all add: self_generate_bars_def subscribe_ticks_def is_callable_def
         split: option.splits)

lemma subscribe_bars_remote:
  assumes "is_callable h" and "bar_structure (bar_specification bt) \<noteq> TICK"
  shows "fst (subscribe_bars (Some bt) h self) = None"
    and "new_events self (snd (subscribe_bars (Some bt) h self)) =
           [BarHandlerAdded bt h, WireSubscribe BarSub (bar_type_to_string bt)]"
  using assms by (simp_all add: subscribe_bars_def new_events_def)

text \<open>
  C7 (against \<open>self_generate_bars\<close> as the specification describes it). A bar subscription
  with a tick-count structure issues no subscribe on the bar channel; it leaves a bar
  aggregator for the bar type, registers the handler for the bar type in the bar registry
  (the registry \<open>handle_bar\<close> dispatches from), and, where the aggregator is new, subscribes
  the aggregator's update to the tick stream of the symbol. A bar subscription with any
  other structure registers the handler and issues the subscribe on the bar channel.
\<close>

theorem tick_bars_are_aggregated_locally:
  assumes "is_callable h"
  shows "if bar_structure (bar_specification bt) = TICK
         then fst (subscribe_bars (Some bt) h self) = None \<and>
              \<not> list_ex is_bar_subscribe (new_events self (snd (subscribe_bars (Some bt) h self))) \<and>
              bar_aggregators (snd (subscribe_bars (Some bt) h self)) bt \<noteq> None \<and>
              registered (bar_handlers (snd (subscribe_bars (Some bt) h self))) bt =
                registered (bar_handlers self) bt @ [h] \<and>
              (if bar_aggregators self bt = None
               then registered (tick_handlers (snd (subscribe_bars (Some bt) h self)))
                      (bar_symbol bt) =
                      registered (tick_handlers self) (bar_symbol bt) @ [AggregatorUpdate bt] \<and>
                    WireSubscribe TickSub (symbol_to_string (bar_symbol bt)) \<in>
                      set (new_events self (snd (subscribe_bars (Some bt) h self)))
               else True)
         else fst (subscribe_bars (Some bt) h self) = None \<and>
              new_events self (snd (subscribe_bars (Some bt) h self)) =
                [BarHandlerAdded bt h, WireSubscribe BarSub (bar_type_to_string bt)]"
proof (cases "bar_structure (bar_specification bt) = TICK")
  case True
  have "subscribe_bars (Some bt) h self = self_generate_bars bt h self"
    using assms True by (simp add: subscribe_bars_def)
  then show ?thesis
    using True by (simp add: self_generate_bars_events self_generate_bars_state)
next
  case False
  then show ?thesis
    using subscribe_bars_remote [OF assms False] by simp
qed

text \<open>
  The witness also runs the subscription: after a two-tick bar type is subscribed, the
  second published tick makes the aggregator deliver the bar to the subscriber.
\<close>

theorem tick_bars_are_aggregated_locally_witness:
  "is_callable (Handler 4) \<and>
   bar_structure (bar_specification two_tick_bid) = TICK \<and>
   trace (snd (subscribe_bars (Some two_tick_bid) (Handler 4) live_client)) =
     [TickHandlerAdded AUDUSD (AggregatorUpdate two_tick_bid),
      WireSubscribe TickSub ''AUDUSD.FXCM'',
      BarHandlerAdded two_tick_bid (Handler 4)] \<and>
   \<not> list_ex is_bar_subscribe
       (new_events live_client (snd (subscribe_bars (Some two_tick_bid) (Handler 4) live_client))) \<and>
   bar_aggregators (snd (subscribe_bars (Some two_tick_bid) (Handler 4) live_client)) two_tick_bid
     \<noteq> None \<and>
   new_events (snd (subscribe_bars (Some two_tick_bid) (Handler 4) live_client))
     (handle_tick_sub audusd_service ''AUDUSD.FXCM'' ''12''
        (handle_tick_sub audusd_service ''AUDUSD.FXCM'' ''10''
           (snd (subscribe_bars (Some two_tick_bid) (Handler 4) live_client)))) =
     [Called (AggregatorUpdate two_tick_bid) (ATick tick10),
      Called (AggregatorUpdate two_tick_bid) (ATick tick12),
      Called (Handler 4) (ABar two_tick_bid (Bar [tick10, tick12]))] \<and>
   bar_structure (bar_specification minute_bid) \<noteq> TICK \<and>
   new_events live_client (snd (subscribe_bars (Some minute_bid) (Handler 4) live_client)) =
     [BarHandlerAdded minute_bid (Handler 4), WireSubscribe BarSub (bar_type_to_string minute_bid)]"
proof -
  have c: "is_callable (Handler 4)"
    by (simp add: is_callable_def)
  have st: "bar_structure (bar_specification two_tick_bid) = TICK"
           "bar_structure (bar_specification minute_bid) \<noteq> TICK"
    by (simp_all add: two_tick_bid_def minute_bid_def)
  have tr: "trace (snd (subscribe_bars (Some two_tick_bid) (Handler 4) live_client)) =
     [TickHandlerAdded AUDUSD (AggregatorUpdate two_tick_bid),
      WireSubscribe TickSub ''AUDUSD.FXCM'',
      BarHandlerAdded two_tick_bid (Handler 4)]"
    by (simp add: subscribe_bars_def self_generate_bars_def subscribe_ticks_def is_callable_def
          live_client_def two_tick_bid_def symbol_to_string_def symbol_value_def AUDUSD_def)
  have run: "new_events (snd (subscribe_bars (Some two_tick_bid) (Handler 4) live_client))
     (handle_tick_sub audusd_service ''AUDUSD.FXCM'' ''12''
        (handle_tick_sub audusd_service ''AUDUSD.FXCM'' ''10''
           (snd (subscribe_bars (Some two_tick_bid) (Handler 4) live_client)))) =
     [Called (AggregatorUpdate two_tick_bid) (ATick tick10),
      Called (AggregatorUpdate two_tick_bid) (ATick tick12),
      Called (Handler 4) (ABar two_tick_bid (Bar [tick10, tick12]))]"
    by (simp add: subscribe_bars_def self_generate_bars_def subscribe_ticks_def is_callable_def
          live_client_def two_tick_bid_def AUDUSD_def handle_tick_sub_def cache_get_def
          audusd_service_def example_service_def parse_symbol_def handle_tick_def
          call_tick_handler_def aggregator_update_def registered_def registry_add_def
          add_tick_handler_def add_bar_handler_def handle_bar_def emit_def new_events_def
          tick10_def tick12_def split_beta)
  from tick_bars_are_aggregated_locally [OF c, where bt = two_tick_bid and self = live_client]
       tick_bars_are_aggregated_locally [OF c, where bt = minute_bid and self = live_client]
       c st tr run
  show ?thesis by simp
qed

text \<open>
  C8. \<open>subscribe_ticks\<close>, \<open>subscribe_bars\<close> for a structure other than tick count, and
  \<open>subscribe_instrument\<close> leave the handler registered under its key; they touch the
  registry and the wire exactly once each, and the handler is added to the registry before
  the subscribe is issued on the channel.
\<close>

theorem subscribe_registers_before_wire:
  assumes "is_callable h"
  shows "registered (tick_handlers (snd (subscribe_ticks (Some s) h self))) s =
           registered (tick_handlers self) s @ [h] \<and>
         registered (instrument_handlers (snd (subscribe_instrument (Some s) h self))) s =
           registered (instrument_handlers self) s @ [h] \<and>
         new_events self (snd (subscribe_ticks (Some s) h self)) =
           [TickHandlerAdded s h, WireSubscribe TickSub (symbol_to_string s)] \<and>
         occurs_before (TickHandlerAdded s h) (WireSubscribe TickSub (symbol_to_string s))
           (new_events self (snd (subscribe_ticks (Some s) h self))) \<and>
         (if bar_structure (bar_specification bt) = TICK then True
          else registered (bar_handlers (snd (subscribe_bars (Some bt) h self))) bt =
                 registered (bar_handlers self) bt @ [h] \<and>
               new_events self (snd (subscribe_bars (Some bt) h self)) =
                 [BarHandlerAdded bt h, WireSubscribe BarSub (bar_type_to_string bt)] \<and>
               occurs_before (BarHandlerAdded bt h) (WireSubscribe BarSub (bar_type_to_string bt))
                 (new_events self (snd (subscribe_bars (Some bt) h self)))) \<and>
         new_events self (snd (subscribe_instrument (Some s) h self)) =
           [InstrumentHandlerAdded s h, WireSubscribe InstSub (symbol_value s)] \<and>
         occurs_before (InstrumentHandlerAdded s h) (WireSubscribe InstSub (symbol_value s))
           (new_events self (snd (subscribe_instrument (Some s) h self)))"
  using assms
  by (simp add: subscribe_ticks_def subscribe_bars_def subscribe_instrument_def new_events_def
        occurs_before_def)

theorem subscribe_registers_before_wire_witness:
  "is_callable (Handler 4) \<and>
   new_events live_client (snd (subscribe_ticks (Some AUDUSD) (Handler 4) live_client)) =
     [TickHandlerAdded AUDUSD (Handler 4), WireSubscribe TickSub ''AUDUSD.FXCM''] \<and>
   occurs_before (TickHandlerAdded AUDUSD (Handler 4)) (WireSubscribe TickSub ''AUDUSD.FXCM'')
     (new_events live_client (snd (subscribe_ticks (Some AUDUSD) (Handler 4) live_client))) \<and>
   occurs_before (BarHandlerAdded minute_bid (Handler 4))
     (WireSubscribe BarSub (bar_type_to_string minute_bid))
     (new_events live_client (snd (subscribe_bars (Some minute_bid) (Handler 4) live_client))) \<and>
   occurs_before (InstrumentHandlerAdded AUDUSD (Handler 4)) (WireSubscribe InstSub ''AUDUSD.FXCM'')
     (new_events live_client (snd (subscribe_instrument (Some AUDUSD) (Handler 4) live_client)))"
proof -
  have c: "is_callable (Handler 4)"
    by (simp add: is_callable_def)
  have st: "bar_structure (bar_specification minute_bid) \<noteq> TICK"
    by (simp add: minute_bid_def)
  have v: "symbol_value AUDUSD = ''AUDUSD.FXCM''"
    by (simp add: symbol_value_def AUDUSD_def)
  from subscribe_registers_before_wire
         [OF c, where self = live_client and s = AUDUSD and bt = minute_bid] c st v
  show ?thesis by (simp add: symbol_to_string_def occurs_before_def)
qed

lemma registered_remove [simp]:
  "registered (registry_remove k h reg) k = remove1 h (registered reg k)"
  by (simp add: registry_remove_def registered_def split: option.splits)

lemma registered_remove_other:
  "k' \<noteq> k \<Longrightarrow> registered (registry_remove k h reg) k' = registered reg k'"
  by (simp add: registry_remove_def registered_def split: option.splits)

lemma registry_remove_last:
  "(registry_remove k h reg k = None) = (remove1 h (registered reg k) = [])"
  by (simp add: registry_remove_def registered_def split: option.splits)

text \<open>
  C9. Each unsubscribe operation returns normally, issues the unsubscribe on its channel
  first and removes the handler from the registry after that call has returned: the
  events it adds are the wire unsubscribe and then the removal, and the registry it leaves
  is the one it found with the handler taken out of the list of its key (the first
  occurrence, the entry going with its last handler), all other keys as they were.
\<close>

theorem unsubscribe_wire_before_removal:
  assumes "is_callable h"
  shows "new_events self (snd (unsubscribe_ticks (Some s) h self)) =
           [WireUnsubscribe TickSub (symbol_to_string s), TickHandlerRemoved s h] \<and>
         occurs_before (WireUnsubscribe TickSub (symbol_to_string s)) (TickHandlerRemoved s h)
           (new_events self (snd (unsubscribe_ticks (Some s) h self))) \<and>
         new_events self (snd (unsubscribe_bars (Some bt) h self)) =
           [WireUnsubscribe BarSub (bar_type_to_string bt), BarHandlerRemoved bt h] \<and>
         occurs_before (WireUnsubscribe BarSub (bar_type_to_string bt)) (BarHandlerRemoved bt h)
           (new_events self (snd (unsubscribe_bars (Some bt) h self))) \<and>
         new_events self (snd (unsubscribe_instrument (Some s) h self)) =
           [WireUnsubscribe InstSub (symbol_value s), InstrumentHandlerRemoved s h] \<and>
         occurs_before (WireUnsubscribe InstSub (symbol_value s)) (InstrumentHandlerRemoved s h)
           (new_events self (snd (unsubscribe_instrument (Some s) h self))) \<and>
         fst (unsubscribe_ticks (Some s) h self) = None \<and>
         fst (unsubscribe_bars (Some bt) h self) = None \<and>
         fst (unsubscribe_instrument (Some s) h self) = None \<and>
         tick_handlers (snd (unsubscribe_ticks (Some s) h self)) =
           registry_remove s h (tick_handlers self) \<and>
         registered (tick_handlers (snd (unsubscribe_ticks (Some s) h self))) s =
           remove1 h (registered (tick_handlers self) s) \<and>
         bar_handlers (snd (unsubscribe_bars (Some bt) h self)) =
           registry_remove bt h (bar_handlers self) \<and>
         registered (bar_handlers (snd (unsubscribe_bars (Some bt) h self))) bt =
           remove1 h (registered (bar_handlers self) bt) \<and>
         instrument_handlers (snd (unsubscribe_instrument (Some s) h self)) =
           registry_remove s h (instrument_handlers self) \<and>
         registered (instrument_handlers (snd (unsubscribe_instrument (Some s) h self))) s =
           remove1 h (registered (instrument_handlers self) s) \<and>
         (if s' = s then True
          else registered (tick_handlers (snd (unsubscribe_ticks (Some s) h self))) s' =
                 registered (tick_handlers self) s' \<and>
               registered (instrument_handlers (snd (unsubscribe_instrument (Some s) h self))) s' =
                 registered (instrument_handlers self) s') \<and>
         (if bt' = bt then True
          else registered (bar_handlers (snd (unsubscribe_bars (Some bt) h self))) bt' =
                 registered (bar_handlers self) bt')"
  using assms
  by (simp add: unsubscribe_ticks_def unsubscribe_bars_def unsubscribe_instrument_def
        new_events_def occurs_before_def registered_remove_other)

text \<open>
  The witness unsubscribes from a client that holds the subscriptions: of the two tick
  handlers of AUDUSD the other one stays, and the bar and instrument entries go with
  their last handler.
\<close>

theorem unsubscribe_wire_before_removal_witness:
  "is_callable (Handler 4) \<and>
   registered (tick_handlers subscribed_client) AUDUSD = [Handler 4, Handler 5] \<and>
   registered (bar_handlers subscribed_client) minute_bid = [Handler 4] \<and>
   registered (instrument_handlers subscribed_client) AUDUSD = [Handler 4] \<and>
   new_events subscribed_client
     (snd (unsubscribe_ticks (Some AUDUSD) (Handler 4) subscribed_client)) =
     [WireUnsubscribe TickSub ''AUDUSD.FXCM'', TickHandlerRemoved AUDUSD (Handler 4)] \<and>
   occurs_before (WireUnsubscribe TickSub ''AUDUSD.FXCM'') (TickHandlerRemoved AUDUSD (Handler 4))
     (new_events subscribed_client
        (snd (unsubscribe_ticks (Some AUDUSD) (Handler 4) subscribed_client))) \<and>
   occurs_before (WireUnsubscribe BarSub (bar_type_to_string minute_bid))
     (BarHandlerRemoved minute_bid (Handler 4))
     (new_events subscribed_client
        (snd (unsubscribe_bars (Some minute_bid) (Handler 4) subscribed_client))) \<and>
   occurs_before (WireUnsubscribe InstSub ''AUDUSD.FXCM'')
     (InstrumentHandlerRemoved AUDUSD (Handler 4))
     (new_events subscribed_client
        (snd (unsubscribe_instrument (Some AUDUSD) (Handler 4) subscribed_client))) \<and>
   registered
     (tick_handlers (snd (unsubscribe_ticks (Some AUDUSD) (Handler 4) subscribed_client)))
     AUDUSD = [Handler 5] \<and>
   registered
     (bar_handlers (snd (unsubscribe_bars (Some minute_bid) (Handler 4) subscribed_client)))
     minute_bid = [] \<and>
   bar_handlers (snd (unsubscribe_bars (Some minute_bid) (Handler 4) subscribed_client))
     minute_bid = None \<and>
   registered
     (instrument_handlers
        (snd (unsubscribe_instrument (Some AUDUSD) (Handler 4) subscribed_client)))
     AUDUSD = [] \<and>
   instrument_handlers
     (snd (unsubscribe_instrument (Some AUDUSD) (Handler 4) subscribed_client))
     AUDUSD = None"
proof -
  have c: "is_callable (Handler 4)"
    by (simp add: is_callable_def)
  have v: "symbol_value AUDUSD = ''AUDUSD.FXCM''"
    by (simp add: symbol_value_def AUDUSD_def)
  have st: "bar_structure (bar_specification minute_bid) \<noteq> TICK"
    by (simp add: minute_bid_def)
  have r: "registered (tick_handlers subscribed_client) AUDUSD = [Handler 4, Handler 5]"
          "registered (bar_handlers subscribed_client) minute_bid = [Handler 4]"
          "registered (instrument_handlers subscribed_client) AUDUSD = [Handler 4]"
    using st
    by (simp_all add: subscribed_client_def subscribe_ticks_def subscribe_bars_def
          subscribe_instrument_def is_callable_def add_tick_handler_def add_bar_handler_def
          add_instrument_handler_def emit_def live_client_def registered_def registry_add_def)
  have e: "bar_handlers subscribed_client minute_bid = Some [Handler 4]"
          "instrument_handlers subscribed_client AUDUSD = Some [Handler 4]"
    using st
    by (simp_all add: subscribed_client_def subscribe_ticks_def subscribe_bars_def
          subscribe_instrument_def is_callable_def add_tick_handler_def add_bar_handler_def
          add_instrument_handler_def emit_def live_client_def registered_def registry_add_def)
  note u = unsubscribe_wire_before_removal
             [OF c, where self = subscribed_client and s = AUDUSD and bt = minute_bid
                and s' = GBPUSD and bt' = two_tick_bid]
  note ev = u [THEN conjunct1] u [THEN conjunct2, THEN conjunct2, THEN conjunct1] u [THEN conjunct2, THEN conjunct2, THEN conjunct2, THEN conjunct2, THEN conjunct1]
  note rg = u [THEN conjunct2, THEN conjunct2, THEN conjunct2, THEN conjunct2, THEN conjunct2, THEN conjunct2, THEN conjunct2, THEN conjunct2, THEN conjunct2, THEN conjunct2, THEN conjunct1] u [THEN conjunct2, THEN conjunct2, THEN conjunct2, THEN conjunct2, THEN conjunct2, THEN conjunct2, THEN conjunct2, THEN conjunct2, THEN conjunct2, THEN conjunct2, THEN conjunct2, THEN conjunct2, THEN conjunct1] u [THEN conjunct2, THEN conjunct2, THEN conjunct2, THEN conjunct2, THEN conjunct2, THEN conjunct2, THEN conjunct2, THEN conjunct2, THEN conjunct2, THEN conjunct2, THEN conjunct2, THEN conjunct2, THEN conjunct2, THEN conjunct2, THEN conjunct1]
  note b = u [THEN conjunct2, THEN conjunct2, THEN conjunct2, THEN conjunct2, THEN conjunct2, THEN conjunct2, THEN conjunct2, THEN conjunct2, THEN conjunct2, THEN conjunct2, THEN conjunct2, THEN conjunct1]
  note i = u [THEN conjunct2, THEN conjunct2, THEN conjunct2, THEN conjunct2, THEN conjunct2, THEN conjunct2, THEN conjunct2, THEN conjunct2, THEN conjunct2, THEN conjunct2, THEN conjunct2, THEN conjunct2, THEN conjunct2, THEN conjunct1]
  have b': "bar_handlers (snd (unsubscribe_bars (Some minute_bid) (Handler 4) subscribed_client))
              minute_bid = None"
    unfolding b using e(1) by (simp add: registry_remove_def)
  have i': "instrument_handlers
              (snd (unsubscribe_instrument (Some AUDUSD) (Handler 4) subscribed_client))
              AUDUSD = None"
    unfolding i using e(2) by (simp add: registry_remove_def)
  have o: "occurs_before x y [x, y]" if "x \<noteq> y" for x y :: Effect
    using that by (simp add: occurs_before_def)
  show ?thesis
    unfolding ev rg r symbol_to_string_def v
    using c b' i' by (simp add: o)
qed

end
